theory Spec2Isabelle
  imports Main "HOL-Library.Sublist"
begin

section \<open>The backwards compatible MCP client (streamableHttpWithSseFallbackClient.ts)\<close>

text \<open>
  JavaScript strings are modelled as \<^typ>\<open>string\<close>. A value that the source treats as
  a condition is truthy or falsy; for a string, only the empty string is falsy.
\<close>

subsection \<open>Command line\<close>

text \<open>
  \<^verbatim>\<open>const args = process.argv.slice(2);\<close>
  \<^verbatim>\<open>const serverUrl = args[0] || 'http://localhost:3000/mcp';\<close>
  \<open>process.argv\<close> holds the path of the interpreter, the path of the script and then the
  arguments given by the user. \<open>args[0]\<close> is \<open>undefined\<close> on an empty array; \<open>||\<close> takes
  its right operand when the left one is falsy, which \<open>undefined\<close> and the empty string are.
\<close>

definition args :: "string list \<Rightarrow> string list" where
  "args argv = drop 2 argv"

definition serverUrl :: "string list \<Rightarrow> string" where
  "serverUrl argv =
     (case args argv of
        [] \<Rightarrow> ''http://localhost:3000/mcp''
      | a # _ \<Rightarrow> (if a = [] then ''http://localhost:3000/mcp'' else a))"

subsection \<open>Browser launch\<close>

text \<open>
  \<^verbatim>\<open>const openCommand = process.platform === 'win32' ? 'start' :\<close>
  \<^verbatim>\<open>                    process.platform === 'darwin' ? 'open' : 'xdg-open';\<close>
  \<^verbatim>\<open>exec(`${openCommand} "${redirectUrl.toString()}"`);\<close>
  The platform is the string \<open>process.platform\<close>; \<open>exec_command\<close> is the command line
  handed to \<open>exec\<close>, for the serialised authorization URL.
\<close>

definition openCommand :: "string \<Rightarrow> string" where
  "openCommand platform =
     (if platform = ''win32'' then ''start''
      else if platform = ''darwin'' then ''open'' else ''xdg-open'')"

definition exec_command :: "string \<Rightarrow> string \<Rightarrow> string" where
  "exec_command platform authorizationUrl =
     openCommand platform @ '' '' @ [CHR 0x22] @ authorizationUrl @ [CHR 0x22]"

subsection \<open>Errors and promises\<close>

text \<open>
  A thrown value is an \<open>Error\<close> object with a name and a message; \<open>new Error(m)\<close> has the
  name \<open>Error\<close>. \<open>error_toString\<close> is \<open>Error.prototype.toString\<close>, which a template
  literal \<^verbatim>\<open>${error}\<close> calls. A promise is pending until it is settled, and settles at
  most once: \<open>resolve\<close> and \<open>reject\<close> on a settled promise do nothing. Awaiting a promise
  that stays \<open>Pending\<close> never returns.
\<close>

datatype js_error = JsError (err_name: string) (err_message: string)

definition new_Error :: "string \<Rightarrow> js_error" where
  "new_Error msg = JsError ''Error'' msg"

definition error_toString :: "js_error \<Rightarrow> string" where
  "error_toString e =
     (if err_name e = [] then err_message e
      else if err_message e = [] then err_name e
      else err_name e @ '': '' @ err_message e)"

datatype 'a promise = Pending | Fulfilled 'a | Rejected js_error

definition resolve :: "'a \<Rightarrow> 'a promise \<Rightarrow> 'a promise" where
  "resolve v p = (case p of Pending \<Rightarrow> Fulfilled v | _ \<Rightarrow> p)"

definition reject :: "js_error \<Rightarrow> 'a promise \<Rightarrow> 'a promise" where
  "reject e p = (case p of Pending \<Rightarrow> Rejected e | _ \<Rightarrow> p)"

subsection \<open>The objects of a negotiation\<close>

text \<open>
  Modelled from the spec: \<open>InMemoryOAuthClientProvider\<close> (demoInMemoryClientOAuthProvider.js)
  is not among the sources. Following section 4.3 it is a passive holder of its constructor
  arguments, the redirect URI and the registration metadata; its third argument, the
  interactive authorization callback, is \<open>onRedirect\<close> below.
  \<open>Client\<close>, \<open>StreamableHTTPClientTransport\<close> and \<open>SSEClientTransport\<close> are collaborators:
  an object is its identity (a number, fresh at each \<open>new\<close>) and its constructor arguments.
\<close>

record client_metadata =
  redirect_uris :: "string list"

record oauth_provider =
  redirectUrl :: string
  clientMetadata :: client_metadata

record mcp_client =
  client_id :: nat
  client_name :: string
  client_version :: string

datatype transport =
    StreamableHTTPClientTransport (transport_id: nat) (transport_url: string) oauth_provider
  | SSEClientTransport (transport_id: nat) (transport_url: string)

record connection =
  client :: mcp_client
  transport :: transport
  transportType :: string

text \<open>
  What a negotiation does to the outside is recorded as a trace, in program order:
  console output, constructions, and each \<open>await client.connect(transport)\<close> with the way
  its promise settled.
\<close>

datatype event =
    Console_log string
  | Console_error string
  | New_Client mcp_client
  | New_Provider oauth_provider
  | New_Transport transport
  | Connect mcp_client transport "unit promise"

record world =
  trace :: "event list"
  next_id :: nat

text \<open>
  The environment of a negotiation: the \<open>URL\<close> constructor (which throws on a string that
  is not a URL) and the behaviour of the server behind a URL towards a connect over the
  Streamable HTTP transport and over the SSE transport.
\<close>

record env =
  new_URL :: "string \<Rightarrow> js_error + string"
  modern_connect :: "string \<Rightarrow> unit promise"
  legacy_connect :: "string \<Rightarrow> unit promise"

definition emit :: "event \<Rightarrow> world \<Rightarrow> world" where
  "emit e w = w\<lparr>trace := trace w @ [e]\<rparr>"

definition new_Client :: "world \<Rightarrow> mcp_client \<times> world" where
  "new_Client w =
     (let c = \<lparr>client_id = next_id w, client_name = ''backwards-compatible-client'',
                client_version = ''1.0.0''\<rparr>
      in (c, emit (New_Client c) (w\<lparr>next_id := Suc (next_id w)\<rparr>)))"

definition new_InMemoryOAuthClientProvider :: "world \<Rightarrow> oauth_provider \<times> world" where
  "new_InMemoryOAuthClientProvider w =
     (let p = \<lparr>redirectUrl = ''http://localhost:8090/callback'',
                clientMetadata = \<lparr>redirect_uris = [''http://localhost:8090/callback'']\<rparr>\<rparr>
      in (p, emit (New_Provider p) w))"

definition new_StreamableHTTPClientTransport ::
  "string \<Rightarrow> oauth_provider \<Rightarrow> world \<Rightarrow> transport \<times> world" where
  "new_StreamableHTTPClientTransport baseUrl provider w =
     (let t = StreamableHTTPClientTransport (next_id w) baseUrl provider
      in (t, emit (New_Transport t) (w\<lparr>next_id := Suc (next_id w)\<rparr>)))"

definition new_SSEClientTransport :: "string \<Rightarrow> world \<Rightarrow> transport \<times> world" where
  "new_SSEClientTransport baseUrl w =
     (let t = SSEClientTransport (next_id w) baseUrl
      in (t, emit (New_Transport t) (w\<lparr>next_id := Suc (next_id w)\<rparr>)))"

definition connect :: "env \<Rightarrow> mcp_client \<Rightarrow> transport \<Rightarrow> world \<Rightarrow> unit promise \<times> world" where
  "connect env c t w =
     (let r = (case t of
                 StreamableHTTPClientTransport _ u _ \<Rightarrow> modern_connect env u
               | SSEClientTransport _ u \<Rightarrow> legacy_connect env u)
      in (r, emit (Connect c t r) w))"

subsection \<open>connectWithBackwardsCompatibility\<close>

text \<open>
  The \<open>catch (error)\<close> block of the source: step 2, the older SSE transport, with its own
  \<open>try\<close> and \<open>catch (sseError)\<close>.
\<close>

definition fallback :: "env \<Rightarrow> string \<Rightarrow> js_error \<Rightarrow> world \<Rightarrow> connection promise \<times> world" where
  "fallback env baseUrl error w0 =
     (let w1 = emit (Console_log (''StreamableHttp transport connection failed: ''
                 @ error_toString error)) w0;
          w2 = emit (Console_log ''2. Falling back to deprecated HTTP+SSE transport...'') w1;
          (sseTransport, w3) = new_SSEClientTransport baseUrl w2;
          (sseClient, w4) = new_Client w3;
          (r, w5) = connect env sseClient sseTransport w4
      in case r of
           Fulfilled _ \<Rightarrow>
             (Fulfilled \<lparr>client = sseClient, transport = sseTransport, transportType = ''sse''\<rparr>,
              emit (Console_log ''Successfully connected using deprecated HTTP+SSE transport.'') w5)
         | Rejected sseError \<Rightarrow>
             (Rejected (new_Error ''Could not connect to server with any available transport''),
              emit (Console_error (''Failed to connect with either transport method:''
                 @ [CHR 0x0A] @ ''1. Streamable HTTP error: '' @ error_toString error
                 @ [CHR 0x0A] @ ''2. SSE error: '' @ error_toString sseError)) w5)
         | Pending \<Rightarrow> (Pending, w5))"

text \<open>
  The function itself. \<open>new URL(url)\<close> stands before the \<open>try\<close>, so its exception leaves
  the function at once. Inside the \<open>try\<close>, a rejected connect is caught whatever it is.
\<close>

definition connectWithBackwardsCompatibility ::
  "env \<Rightarrow> string \<Rightarrow> world \<Rightarrow> connection promise \<times> world" where
  "connectWithBackwardsCompatibility env url w0 =
     (let w1 = emit (Console_log ''1. Trying Streamable HTTP transport first...'') w0;
          (client1, w2) = new_Client w1
      in case new_URL env url of
           Inl e \<Rightarrow> (Rejected e, w2)
         | Inr baseUrl \<Rightarrow>
             (let (provider, w3) = new_InMemoryOAuthClientProvider w2;
                  (streamableTransport, w4) =
                     new_StreamableHTTPClientTransport baseUrl provider w3;
                  (r, w5) = connect env client1 streamableTransport w4
              in case r of
                   Fulfilled _ \<Rightarrow>
                     (Fulfilled \<lparr>client = client1, transport = streamableTransport,
                                 transportType = ''streamable-http''\<rparr>,
                      emit (Console_log
                        ''Successfully connected using modern Streamable HTTP transport.'') w5)
                 | Rejected error \<Rightarrow> fallback env baseUrl error w5
                 | Pending \<Rightarrow> (Pending, w5)))"

text \<open>Reading a trace: the events of the legacy transport, and the failed modern connect.\<close>

fun legacy_event :: "event \<Rightarrow> bool" where
  "legacy_event (New_Transport (SSEClientTransport _ _)) = True"
| "legacy_event (Connect _ (SSEClientTransport _ _) _) = True"
| "legacy_event _ = False"

fun legacy_connect_event :: "event \<Rightarrow> bool" where
  "legacy_connect_event (Connect _ (SSEClientTransport _ _) _) = True"
| "legacy_connect_event _ = False"

fun modern_failed_event :: "event \<Rightarrow> bool" where
  "modern_failed_event (Connect _ (StreamableHTTPClientTransport _ _ _) (Rejected _)) = True"
| "modern_failed_event _ = False"

definition events_since :: "world \<Rightarrow> world \<Rightarrow> event list" where
  "events_since w0 w = drop (length (trace w0)) (trace w)"

subsection \<open>The query of a request URL\<close>

text \<open>
  \<^verbatim>\<open>const parsedUrl = nurl.parse(req.url || '', true);\<close>
  \<^verbatim>\<open>const code = parsedUrl.query.code as string;\<close>
  \<open>node:url\<close> and \<open>node:querystring\<close> belong to the platform, not to the repository. They are
  modelled as Node documents and implements them, for a request target without white space:
  the query is what stands between the first \<open>?\<close> and the first \<open>#\<close>; it is cut at
  \<open>&\<close> into at most 1000 pieces (\<open>maxKeys\<close>), empty pieces are skipped, a piece is cut at its
  first \<open>=\<close> into key and value, \<open>+\<close> stands for a space and \<open>%XX\<close> for a byte. A key seen
  once has a string as its value; a key seen again has the array of its values. Strings are
  byte strings here, so a decoded non-ASCII character is its UTF-8 bytes.
  A field of the query object is therefore \<open>undefined\<close>, a string or an array of strings,
  whatever the cast \<open>as string\<close> says; every array is truthy.
\<close>

datatype qvalue = QUndefined | QString string | QArray "string list"

fun truthy :: "qvalue \<Rightarrow> bool" where
  "truthy QUndefined = False"
| "truthy (QString s) = (s \<noteq> [])"
| "truthy (QArray _) = True"

definition query_string :: "string \<Rightarrow> string" where
  "query_string u =
     drop 1 (dropWhile (\<lambda>c. c \<noteq> CHR ''?'') (takeWhile (\<lambda>c. c \<noteq> CHR ''#'') u))"

fun split_on :: "char \<Rightarrow> string \<Rightarrow> string list" where
  "split_on sep [] = [[]]"
| "split_on sep (c # cs) =
     (if c = sep then [] # split_on sep cs
      else (case split_on sep cs of [] \<Rightarrow> [[c]] | p # ps \<Rightarrow> (c # p) # ps))"

definition hex_digit :: "char \<Rightarrow> nat option" where
  "hex_digit c =
     (let n = (of_char c :: nat)
      in if 48 \<le> n \<and> n \<le> 57 then Some (n - 48)
         else if 65 \<le> n \<and> n \<le> 70 then Some (n - 55)
         else if 97 \<le> n \<and> n \<le> 102 then Some (n - 87)
         else None)"

fun unescape :: "string \<Rightarrow> string" where
  "unescape [] = []"
| "unescape (c # cs) =
     (if c = CHR ''+'' then CHR '' '' # unescape cs
      else if c = CHR ''%'' then
        (case cs of
           h # l # rest \<Rightarrow>
             (case (hex_digit h, hex_digit l) of
                (Some a, Some b) \<Rightarrow> char_of (16 * a + b) # unescape rest
              | _ \<Rightarrow> c # unescape cs)
         | _ \<Rightarrow> c # unescape cs)
      else c # unescape cs)"

definition parse_pair :: "string \<Rightarrow> string \<times> string" where
  "parse_pair piece =
     (unescape (takeWhile (\<lambda>c. c \<noteq> CHR ''='') piece),
      unescape (drop 1 (dropWhile (\<lambda>c. c \<noteq> CHR ''='') piece)))"

definition query_pairs :: "string \<Rightarrow> (string \<times> string) list" where
  "query_pairs qs = map parse_pair (filter (\<lambda>p. p \<noteq> []) (take 1000 (split_on CHR ''&'' qs)))"

definition addKeyValue :: "(string \<rightharpoonup> qvalue) \<Rightarrow> string \<times> string \<Rightarrow> (string \<rightharpoonup> qvalue)" where
  "addKeyValue obj kv =
     (case obj (fst kv) of
        None \<Rightarrow> obj(fst kv \<mapsto> QString (snd kv))
      | Some QUndefined \<Rightarrow> obj(fst kv \<mapsto> QString (snd kv))
      | Some (QString cur) \<Rightarrow> obj(fst kv \<mapsto> QArray [cur, snd kv])
      | Some (QArray vs) \<Rightarrow> obj(fst kv \<mapsto> QArray (vs @ [snd kv])))"

definition querystring_parse :: "string \<Rightarrow> (string \<rightharpoonup> qvalue)" where
  "querystring_parse qs = foldl addKeyValue Map.empty (query_pairs qs)"

definition query_field :: "string \<Rightarrow> string \<Rightarrow> qvalue" where
  "query_field u k =
     (case querystring_parse (query_string u) k of None \<Rightarrow> QUndefined | Some v \<Rightarrow> v)"

text \<open>
  \<open>url.parse\<close> can also throw. It looks for a host only in a target that starts with a
  scheme or, after backslashes have become slashes, with two slashes; a target that is
  empty, or starts with one slash not followed by a slash or a backslash, has no host
  and is parsed without an exception. For any other target the platform checks the host
  name (its length, its characters, its IDNA form) and throws when the check fails.
  That check is a parameter here: \<open>invalid_url u\<close> is the exception thrown for the
  target \<open>u\<close>, if there is one.
\<close>

definition path_only :: "string \<Rightarrow> bool" where
  "path_only u =
     (case u of
        [] \<Rightarrow> True
      | c # cs \<Rightarrow>
          c = CHR ''/'' \<and>
          (case cs of [] \<Rightarrow> True | d # _ \<Rightarrow> d \<noteq> CHR ''/'' \<and> d \<noteq> CHR 0x5C))"

definition url_parse_error :: "(string \<Rightarrow> js_error option) \<Rightarrow> string \<Rightarrow> js_error option" where
  "url_parse_error invalid_url u = (if path_only u then None else invalid_url u)"

definition req_target :: "string option \<Rightarrow> string" where
  "req_target req_url = (case req_url of None \<Rightarrow> [] | Some u \<Rightarrow> u)"

subsection \<open>The authorization callback and its HTTP listener\<close>

text \<open>
  The callback given to the provider creates \<open>codePromise\<close>, an HTTP server with one request
  handler, has it listen on port 8090 and, once it listens, starts the browser with
  \<open>exec\<close>. The state below is what the callback owns: the bound port (\<open>None\<close> when the
  server is closed), the promise, the responses written so far, the delays of the scheduled
  \<open>server.close()\<close> calls, the command lines handed to \<open>exec\<close>, and the console.
  The two response bodies are static pages, named by their headings.
  The request handler has no \<open>try\<close>: an exception thrown in it is caught by nothing, and
  Node ends the process with it. \<open>uncaught\<close> holds that exception; once it is set nothing
  happens any more, and the other fields stay as they were when it was thrown.
\<close>

datatype page = Authorization_Successful | Authorization_Failed

record response =
  status :: nat
  content_type :: string
  body :: page

record broker =
  port :: "nat option"
  codePromise :: "qvalue promise"
  responses :: "response list"
  close_timers :: "nat list"
  executed :: "string list"
  console :: "string list"
  uncaught :: "js_error option"

text \<open>
  The request handler, lines 110 to 143. \<open>req.url\<close> may be \<open>undefined\<close>, and
  \<open>req.url || ''\<close> (\<open>req_target\<close>) is the empty string then. When \<open>nurl.parse\<close> on line 111
  throws, the handler is left before anything is written, settled or scheduled.
\<close>

definition handler ::
  "(string \<Rightarrow> js_error option) \<Rightarrow> string option \<Rightarrow> broker \<Rightarrow> broker" where
  "handler invalid_url req_url b =
     (case url_parse_error invalid_url (req_target req_url) of
        Some e \<Rightarrow> b\<lparr>uncaught := Some e\<rparr>
      | None \<Rightarrow>
         (let code = query_field (req_target req_url) ''code''
          in if truthy code then
               b\<lparr>responses := responses b
                    @ [\<lparr>status = 200, content_type = ''text/html'',
                        body = Authorization_Successful\<rparr>],
                 codePromise := resolve code (codePromise b),
                 close_timers := close_timers b @ [1000]\<rparr>
             else
               b\<lparr>responses := responses b
                    @ [\<lparr>status = 400, content_type = ''text/html'',
                        body = Authorization_Failed\<rparr>],
                 codePromise := reject (new_Error ''No authorization code provided'')
                    (codePromise b)\<rparr>))"

text \<open>
  What can happen to a started callback, as long as the process lives: a request arrives
  (it reaches the handler only while the server listens), a scheduled \<open>server.close()\<close> comes due, or the process started
  by \<open>exec\<close> ends with an exit status (nonzero when the browser could not be launched).
  \<open>exec\<close> is called without a callback and its result is dropped, so the last one changes
  nothing.
\<close>

datatype broker_event = Request "string option" | Timer_fires | Child_exit nat

fun step :: "(string \<Rightarrow> js_error option) \<Rightarrow> broker_event \<Rightarrow> broker \<Rightarrow> broker" where
  "step invalid_url (Request req_url) b =
     (if uncaught b \<noteq> None \<or> port b = None then b else handler invalid_url req_url b)"
| "step invalid_url Timer_fires b =
     (if uncaught b \<noteq> None then b
      else case close_timers b of [] \<Rightarrow> b | _ # ts \<Rightarrow> b\<lparr>close_timers := ts, port := None\<rparr>)"
| "step invalid_url (Child_exit _) b = b"

fun run ::
  "(string \<Rightarrow> js_error option) \<Rightarrow> broker_event list \<Rightarrow> broker \<Rightarrow> broker" where
  "run invalid_url [] b = b"
| "run invalid_url (e # es) b = run invalid_url es (step invalid_url e b)"

text \<open>
  The callback up to its \<open>await\<close>, lines 103 to 152: the server listens and the browser
  command has been issued. \<open>onRedirect\<close> is the whole callback for the events that follow:
  \<open>await codePromise; return codePromise\<close> gives the way the promise settled, and does not
  return while it is pending.
\<close>

definition start :: "string \<Rightarrow> string \<Rightarrow> broker" where
  "start platform authorizationUrl =
     \<lparr>port = Some 8090, codePromise = Pending, responses = [], close_timers = [],
       executed = [exec_command platform authorizationUrl],
       console = [''Opening browser to: '' @ authorizationUrl,
                  ''OAuth callback server started on http://localhost:8090''],
       uncaught = None\<rparr>"

definition onRedirect ::
  "(string \<Rightarrow> js_error option) \<Rightarrow> string \<Rightarrow> string \<Rightarrow> broker_event list \<Rightarrow> qvalue promise" where
  "onRedirect invalid_url platform authorizationUrl evs =
     codePromise (run invalid_url evs (start platform authorizationUrl))"

text \<open>
  The words of the claims about a request: its query has a \<open>code\<close> parameter whose value is
  not empty. The port written in a URL, for the redirect URI.
\<close>

definition code_values :: "string \<Rightarrow> string list" where
  "code_values u =
     map snd (filter (\<lambda>kv. fst kv = ''code'') (query_pairs (query_string u)))"

definition has_nonempty_code :: "string \<Rightarrow> bool" where
  "has_nonempty_code u = list_ex (\<lambda>v. v \<noteq> []) (code_values u)"

fun child_exit :: "broker_event \<Rightarrow> bool" where
  "child_exit (Child_exit _) = True"
| "child_exit _ = False"

definition nat_of_digits :: "string \<Rightarrow> nat" where
  "nat_of_digits ds = foldl (\<lambda>n c. 10 * n + (of_char c - 48)) 0 ds"

definition url_port :: "string \<Rightarrow> nat" where
  "url_port u =
     nat_of_digits (drop 1 (dropWhile (\<lambda>c. c \<noteq> CHR '':'')
        (takeWhile (\<lambda>c. c \<noteq> CHR ''/'') (drop 3 (dropWhile (\<lambda>c. c \<noteq> CHR '':'') u)))))"

section \<open>Properties\<close>

lemmas negotiate_defs = connectWithBackwardsCompatibility_def fallback_def connect_def
  new_Client_def new_SSEClientTransport_def new_StreamableHTTPClientTransport_def
  new_InMemoryOAuthClientProvider_def emit_def events_since_def Let_def

lemmas query_defs = query_field_def querystring_parse_def query_pairs_def query_string_def
  parse_pair_def addKeyValue_def

subsection \<open>Server URL\<close>

lemma serverUrl_no_argument: "args argv = [] \<Longrightarrow> serverUrl argv = ''http://localhost:3000/mcp''"
  by (simp add: serverUrl_def)

text \<open>
  C10, as stated: any explicit first argument replaces the default verbatim. The empty
  string is an explicit first argument (\<^verbatim>\<open>node client.js ""\<close>) and does not replace it.
\<close>

theorem serverUrl_empty_argument_counterexample:
  "args [''node'', ''client.js'', ''''] = [''''] \<and>
   serverUrl [''node'', ''client.js'', ''''] = ''http://localhost:3000/mcp'' \<and>
   serverUrl [''node'', ''client.js'', ''''] \<noteq> hd (args [''node'', ''client.js'', ''''])"
  by (simp add: serverUrl_def args_def)

text \<open>
  C10, amended: when no first argument is supplied, or the first argument is the empty
  string, the server URL is \<open>http://localhost:3000/mcp\<close>; a non-empty first argument
  replaces this default verbatim.
\<close>

theorem serverUrl_default_or_argument:
  "(args argv = [] \<or> hd (args argv) = [] \<longrightarrow> serverUrl argv = ''http://localhost:3000/mcp'') \<and>
   (args argv \<noteq> [] \<and> hd (args argv) \<noteq> [] \<longrightarrow> serverUrl argv = hd (args argv))"
  by (cases "args argv") (simp_all add: serverUrl_def)

theorem serverUrl_default_or_argument_witness:
  "serverUrl [''node'', ''client.js''] = ''http://localhost:3000/mcp'' \<and>
   serverUrl [''node'', ''client.js'', ''http://example.com/mcp''] = ''http://example.com/mcp''"
  using serverUrl_default_or_argument [of "[''node'', ''client.js'']"]
    serverUrl_default_or_argument [of "[''node'', ''client.js'', ''http://example.com/mcp'']"]
  by (simp add: args_def)

subsection \<open>Browser launch command\<close>

text \<open>
  C8: the launch command is a function of the platform alone: \<open>start\<close> on win32, \<open>open\<close>
  on darwin, \<open>xdg-open\<close> on every other platform; the command line handed to \<open>exec\<close>, once,
  is that command, a space, and the authorization URL between double quotes.
\<close>

theorem openCommand_by_platform:
  "openCommand ''win32'' = ''start'' \<and> openCommand ''darwin'' = ''open'' \<and>
   (platform \<noteq> ''win32'' \<and> platform \<noteq> ''darwin'' \<longrightarrow> openCommand platform = ''xdg-open'') \<and>
   executed (start platform url) = [openCommand platform @ '' '' @ [CHR 0x22] @ url @ [CHR 0x22]]"
  by (simp add: openCommand_def start_def exec_command_def)

theorem openCommand_by_platform_witness:
  "openCommand ''linux'' = ''xdg-open'' \<and>
   executed (start ''linux'' ''https://auth.example/authorize'') =
     [''xdg-open '' @ [CHR 0x22] @ ''https://auth.example/authorize'' @ [CHR 0x22]]"
  using openCommand_by_platform [of "''linux''" "''https://auth.example/authorize''"]
  by simp

subsection \<open>The listener\<close>

text \<open>
  C9: the listener binds the fixed port 8090, the port of the redirect URI
  \<open>http://localhost:8090/callback\<close> that the provider is constructed with, both as its
  redirect URI and as the only entry of \<open>redirect_uris\<close> in its registration metadata.
\<close>

theorem listener_port_matches_redirect_uri:
  "port (start platform url) = Some 8090 \<and>
   redirectUrl (fst (new_InMemoryOAuthClientProvider w)) = ''http://localhost:8090/callback'' \<and>
   redirect_uris (clientMetadata (fst (new_InMemoryOAuthClientProvider w))) =
     [''http://localhost:8090/callback''] \<and>
   url_port (redirectUrl (fst (new_InMemoryOAuthClientProvider w))) = 8090"
  by (simp add: start_def new_InMemoryOAuthClientProvider_def Let_def url_port_def
      nat_of_digits_def)






text \<open>
  A request whose target \<open>url.parse\<close> refuses: the exception leaves the handler, and no
  response is written, nothing is settled and no close is scheduled.
\<close>

lemma request_refused:
  assumes "port b = Some p" and "uncaught b = None"
    and "url_parse_error invalid_url (req_target r) = Some e"
  shows "step invalid_url (Request r) b = b\<lparr>uncaught := Some e\<rparr>"
  using assms by (simp add: handler_def)

lemma scenario_invalid_host:
  "run (\<lambda>u. if u = ''http://xn--/cb?code=a'' then Some (JsError ''TypeError'' ''Invalid URL'')
            else None)
     [Request (Some ''http://xn--/cb?code=a''), Request (Some ''/callback?code=abc'')]
     (start ''linux'' ''https://auth.example/authorize'') =
   (start ''linux'' ''https://auth.example/authorize'')
     \<lparr>uncaught := Some (JsError ''TypeError'' ''Invalid URL'')\<rparr>"
  by (simp add: start_def handler_def url_parse_error_def path_only_def req_target_def)

lemma run_filter_child:
  "run invalid_url (filter (\<lambda>e. \<not> child_exit e) evs) b = run invalid_url evs b"
proof (induction evs arbitrary: b)
  case Nil
  show ?case by simp
next
  case (Cons e evs)
  show ?case by (cases e) (simp_all add: Cons.IH)
qed

lemma step_rejection:
  assumes "\<forall>x. codePromise b = Rejected x \<longrightarrow> x = new_Error ''No authorization code provided''"
  shows "\<forall>x. codePromise (step invalid_url e b) = Rejected x \<longrightarrow>
     x = new_Error ''No authorization code provided''"
  using assms
  by (cases e; cases "codePromise b")
     (auto simp add: handler_def Let_def resolve_def reject_def
        split: list.splits if_splits option.splits)

lemma run_rejection:
  assumes "\<forall>x. codePromise b = Rejected x \<longrightarrow> x = new_Error ''No authorization code provided''"
  shows "\<forall>x. codePromise (run invalid_url evs b) = Rejected x \<longrightarrow>
     x = new_Error ''No authorization code provided''"
  using assms
proof (induction evs arbitrary: b)
  case Nil
  then show ?case by simp
next
  case (Cons e evs)
  from Cons.IH [OF step_rejection [OF Cons.prems]] show ?case by simp
qed

subsection \<open>The query object\<close>

text \<open>
  What \<open>parsedUrl.query.code\<close> is, from the values of the \<open>code\<close> parameters in the order of
  the query: \<open>undefined\<close> for none, the string for one, the array for more.
\<close>

lemma addKeyValue_apply:
  "addKeyValue m kv k =
     (if fst kv = k then
        Some (case m k of
                None \<Rightarrow> QString (snd kv)
              | Some QUndefined \<Rightarrow> QString (snd kv)
              | Some (QString c) \<Rightarrow> QArray [c, snd kv]
              | Some (QArray cs) \<Rightarrow> QArray (cs @ [snd kv]))
      else m k)"
  by (simp add: addKeyValue_def split: option.splits qvalue.splits)

lemma foldl_addKeyValue:
  "foldl addKeyValue m kvs k =
     (case map snd (filter (\<lambda>kv. fst kv = k) kvs) of
        [] \<Rightarrow> m k
      | v # vs \<Rightarrow>
          Some (case m k of
                  None \<Rightarrow> (if vs = [] then QString v else QArray (v # vs))
                | Some QUndefined \<Rightarrow> (if vs = [] then QString v else QArray (v # vs))
                | Some (QString c) \<Rightarrow> QArray (c # v # vs)
                | Some (QArray cs) \<Rightarrow> QArray (cs @ v # vs)))"
proof (induction kvs arbitrary: m)
  case Nil
  show ?case by simp
next
  case (Cons kv kvs)
  have "foldl addKeyValue m (kv # kvs) k = foldl addKeyValue (addKeyValue m kv) kvs k"
    by simp
  also have "\<dots> = (case map snd (filter (\<lambda>kv. fst kv = k) kvs) of
        [] \<Rightarrow> addKeyValue m kv k
      | v # vs \<Rightarrow>
          Some (case addKeyValue m kv k of
                  None \<Rightarrow> (if vs = [] then QString v else QArray (v # vs))
                | Some QUndefined \<Rightarrow> (if vs = [] then QString v else QArray (v # vs))
                | Some (QString c) \<Rightarrow> QArray (c # v # vs)
                | Some (QArray cs) \<Rightarrow> QArray (cs @ v # vs)))"
    by (rule Cons.IH)
  finally have unfolded: "foldl addKeyValue m (kv # kvs) k = (case map snd (filter (\<lambda>kv. fst kv = k) kvs) of
        [] \<Rightarrow> addKeyValue m kv k
      | v # vs \<Rightarrow>
          Some (case addKeyValue m kv k of
                  None \<Rightarrow> (if vs = [] then QString v else QArray (v # vs))
                | Some QUndefined \<Rightarrow> (if vs = [] then QString v else QArray (v # vs))
                | Some (QString c) \<Rightarrow> QArray (c # v # vs)
                | Some (QArray cs) \<Rightarrow> QArray (cs @ v # vs)))" .
  have here: "addKeyValue m kv k =
     (if fst kv = k then
        Some (case m k of
                None \<Rightarrow> QString (snd kv)
              | Some QUndefined \<Rightarrow> QString (snd kv)
              | Some (QString c) \<Rightarrow> QArray [c, snd kv]
              | Some (QArray cs) \<Rightarrow> QArray (cs @ [snd kv]))
      else m k)"
    by (rule addKeyValue_apply)
  show ?case unfolding unfolded here
    by (simp split: list.splits option.splits qvalue.splits)
qed

lemma query_field_code:
  "query_field u ''code'' =
     (case code_values u of [] \<Rightarrow> QUndefined | [v] \<Rightarrow> QString v | v # vs \<Rightarrow> QArray (v # vs))"
  by (simp add: query_field_def querystring_parse_def code_values_def foldl_addKeyValue
      split: list.splits)

lemma truthy_code:
  "truthy (query_field u ''code'') =
     (case code_values u of [] \<Rightarrow> False | [v] \<Rightarrow> v \<noteq> [] | _ \<Rightarrow> True)"
  by (simp add: query_field_code split: list.splits)

lemma single_code_parameter:
  "length (code_values u) \<le> 1 \<Longrightarrow> truthy (query_field u ''code'') = has_nonempty_code u"
proof (cases "code_values u")
  case Nil
  then show ?thesis by (simp add: truthy_code has_nonempty_code_def)
next
  case (Cons v vs)
  assume "length (code_values u) \<le> 1"
  with Cons have "vs = []" by simp
  with Cons show ?thesis by (simp add: truthy_code has_nonempty_code_def)
qed

lemma first_request:
  assumes "url_parse_error invalid_url (req_target r) = None"
  shows "onRedirect invalid_url platform url [Request r] =
     (let code = query_field (req_target r) ''code''
      in if truthy code then Fulfilled code
         else Rejected (new_Error ''No authorization code provided''))"
    and "map status (responses (run invalid_url [Request r] (start platform url))) =
     [if truthy (query_field (req_target r) ''code'') then 200 else 400]"
  using assms
  by (simp_all add: onRedirect_def start_def handler_def Let_def resolve_def reject_def)

lemma path_only_parses: "path_only u \<Longrightarrow> url_parse_error invalid_url u = None"
  by (simp add: url_parse_error_def)

lemma scenario_code:
  "onRedirect invalid_url ''linux'' ''https://auth.example/authorize''
       [Request (Some ''/callback?code=abc123'')] = Fulfilled (QString ''abc123'')"
  by (simp add: onRedirect_def start_def handler_def query_defs resolve_def
      url_parse_error_def path_only_def req_target_def)

lemma scenario_no_query:
  "onRedirect invalid_url ''linux'' ''https://auth.example/authorize''
       [Request (Some ''/callback'')] =
     Rejected (new_Error ''No authorization code provided'') \<and>
   map status (responses (run invalid_url [Request (Some ''/callback'')]
       (start ''linux'' ''https://auth.example/authorize''))) = [400]"
  by (simp add: onRedirect_def start_def handler_def query_defs reject_def
      url_parse_error_def path_only_def req_target_def)

subsection \<open>The first request\<close>

text \<open>
  C2: the promise is resolved with the code exactly when the query of the first request
  has a non-empty \<open>code\<close> parameter, and is rejected with a 400 response otherwise. The
  request \<^verbatim>\<open>GET /callback?code=&code=\<close> has no non-empty \<open>code\<close> parameter; its
  \<open>query.code\<close> is the array of two empty strings, which is truthy: the response is 200 and
  the promise, declared a promise of a string, is resolved with that array, whatever the
  platform's check of host names is.
  (\<open>first_request\<close> and \<open>single_code_parameter\<close> above: with at most one \<open>code\<close> parameter
  in the query of a target that is parsed, the handler does what the claim says.)
\<close>

theorem repeated_empty_code_resolves:
  "\<not> has_nonempty_code ''/callback?code=&code='' \<and>
   onRedirect invalid_url ''linux'' ''https://auth.example/authorize''
       [Request (Some ''/callback?code=&code='')] = Fulfilled (QArray ['''', '''']) \<and>
   map status (responses (run invalid_url [Request (Some ''/callback?code=&code='')]
       (start ''linux'' ''https://auth.example/authorize''))) = [200]"
  by (simp add: has_nonempty_code_def code_values_def onRedirect_def start_def handler_def
      query_defs resolve_def url_parse_error_def path_only_def req_target_def)

subsection \<open>Closing the listener\<close>




subsection \<open>Browser launch failures\<close>

text \<open>
  C7: a failed browser launch is never surfaced. The callback has bound the port and left
  the promise pending when the launch is issued, the end of the launched process (whatever
  its exit status) changes nothing, so the outcome of the callback and the state of the
  listener are those of the same events without it; and the only error the promise is ever
  rejected with is the missing authorization code.
\<close>

theorem launch_failure_not_surfaced:
  "port (start platform url) = Some 8090 \<and> codePromise (start platform url) = Pending \<and>
   step invalid_url (Child_exit n) b = b \<and>
   onRedirect invalid_url platform url evs =
     onRedirect invalid_url platform url (filter (\<lambda>e. \<not> child_exit e) evs) \<and>
   port (run invalid_url evs (start platform url)) =
     port (run invalid_url (filter (\<lambda>e. \<not> child_exit e) evs) (start platform url)) \<and>
   (\<forall>x. onRedirect invalid_url platform url evs = Rejected x \<longrightarrow>
        x = new_Error ''No authorization code provided'')"
proof -
  have "\<forall>x. codePromise (start platform url) = Rejected x \<longrightarrow>
     x = new_Error ''No authorization code provided''"
    by (simp add: start_def)
  from run_rejection [OF this, of invalid_url evs] show ?thesis
    by (simp add: onRedirect_def run_filter_child start_def)
qed

theorem launch_failure_not_surfaced_witness:
  "onRedirect (\<lambda>_. None) ''linux'' ''https://auth.example/authorize''
       [Child_exit 127, Request (Some ''/callback'')] =
     Rejected (new_Error ''No authorization code provided'') \<and>
   onRedirect (\<lambda>_. None) ''linux'' ''https://auth.example/authorize'' [Child_exit 127] =
     Pending \<and>
   port (run (\<lambda>_. None) [Child_exit 127]
      (start ''linux'' ''https://auth.example/authorize'')) = Some 8090"
  using launch_failure_not_surfaced [of "''linux''" "''https://auth.example/authorize''"
     "\<lambda>_. None" 127 "start ''linux'' ''https://auth.example/authorize''"
     "[Child_exit 127, Request (Some ''/callback'')]"]
  by (simp add: onRedirect_def start_def handler_def query_defs reject_def
      url_parse_error_def path_only_def req_target_def)

subsection \<open>Negotiation\<close>

text \<open>
  C5: when the connect over Streamable HTTP succeeds, the function returns the first
  client, the Streamable HTTP transport and the transport type \<open>streamable-http\<close>, and the
  SSE transport is neither constructed nor connected.
\<close>

theorem modern_success_no_legacy:
  assumes "new_URL env url = Inr b" and "modern_connect env b = Fulfilled ()"
  shows "fst (connectWithBackwardsCompatibility env url w) =
      Fulfilled \<lparr>client = \<lparr>client_id = next_id w, client_name = ''backwards-compatible-client'',
                   client_version = ''1.0.0''\<rparr>,
         transport = StreamableHTTPClientTransport (Suc (next_id w)) b
            \<lparr>redirectUrl = ''http://localhost:8090/callback'',
              clientMetadata = \<lparr>redirect_uris = [''http://localhost:8090/callback'']\<rparr>\<rparr>,
         transportType = ''streamable-http''\<rparr> \<and>
    filter legacy_event (events_since w (snd (connectWithBackwardsCompatibility env url w))) = []"
  using assms by (simp add: negotiate_defs)

theorem modern_success_no_legacy_witness:
  "fst (connectWithBackwardsCompatibility
       \<lparr>new_URL = Inr, modern_connect = (\<lambda>_. Fulfilled ()),
         legacy_connect = (\<lambda>_. Fulfilled ())\<rparr>
       ''http://localhost:3000/mcp'' \<lparr>trace = [], next_id = 0\<rparr>) =
     Fulfilled \<lparr>client = \<lparr>client_id = 0, client_name = ''backwards-compatible-client'',
                  client_version = ''1.0.0''\<rparr>,
        transport = StreamableHTTPClientTransport 1 ''http://localhost:3000/mcp''
            \<lparr>redirectUrl = ''http://localhost:8090/callback'',
              clientMetadata = \<lparr>redirect_uris = [''http://localhost:8090/callback'']\<rparr>\<rparr>,
        transportType = ''streamable-http''\<rparr> \<and>
   filter legacy_event (events_since \<lparr>trace = [], next_id = 0\<rparr>
     (snd (connectWithBackwardsCompatibility
       \<lparr>new_URL = Inr, modern_connect = (\<lambda>_. Fulfilled ()),
         legacy_connect = (\<lambda>_. Fulfilled ())\<rparr>
       ''http://localhost:3000/mcp'' \<lparr>trace = [], next_id = 0\<rparr>))) = []"
  using modern_success_no_legacy [of
     "\<lparr>new_URL = Inr, modern_connect = (\<lambda>_. Fulfilled ()),
       legacy_connect = (\<lambda>_. Fulfilled ())\<rparr>"
     "''http://localhost:3000/mcp''" "''http://localhost:3000/mcp''"
     "\<lparr>trace = [], next_id = 0\<rparr>"]
  by simp

text \<open>
  C4: when the connect over Streamable HTTP is rejected, with whatever error, the SSE
  transport is connected exactly once, and nothing of the SSE transport happens before the
  rejected connect: the events up to it hold no construction and no connect of an SSE
  transport.
\<close>

theorem modern_failure_legacy_once:
  assumes "new_URL env url = Inr b" and "modern_connect env b = Rejected e"
  shows "length (filter legacy_connect_event
            (events_since w (snd (connectWithBackwardsCompatibility env url w)))) = 1 \<and>
    filter modern_failed_event
            (events_since w (snd (connectWithBackwardsCompatibility env url w))) \<noteq> [] \<and>
    filter legacy_event (takeWhile (\<lambda>x. \<not> modern_failed_event x)
            (events_since w (snd (connectWithBackwardsCompatibility env url w)))) = []"
  using assms by (cases "legacy_connect env b") (simp_all add: negotiate_defs)

theorem modern_failure_legacy_once_witness:
  "length (filter legacy_connect_event (events_since \<lparr>trace = [], next_id = 0\<rparr>
     (snd (connectWithBackwardsCompatibility
       \<lparr>new_URL = Inr, modern_connect = (\<lambda>_. Rejected (new_Error ''HTTP 404'')),
         legacy_connect = (\<lambda>_. Fulfilled ())\<rparr>
       ''http://localhost:3000/mcp'' \<lparr>trace = [], next_id = 0\<rparr>)))) = 1"
  using modern_failure_legacy_once [of
     "\<lparr>new_URL = Inr, modern_connect = (\<lambda>_. Rejected (new_Error ''HTTP 404'')),
       legacy_connect = (\<lambda>_. Fulfilled ())\<rparr>"
     "''http://localhost:3000/mcp''" "''http://localhost:3000/mcp''"
     "new_Error ''HTTP 404''" "\<lparr>trace = [], next_id = 0\<rparr>"]
  by simp

text \<open>
  C6: when the connect over Streamable HTTP is rejected and the connect over SSE succeeds,
  the function returns the transport type \<open>sse\<close>, an SSE transport bound to the URL the
  Streamable HTTP transport was bound to, and a second client: not the client of the
  rejected connect, and constructed after it.
\<close>

theorem fallback_returns_fresh_client:
  assumes "new_URL env url = Inr b" and "modern_connect env b = Rejected e"
    and "legacy_connect env b = Fulfilled ()"
  shows "fst (connectWithBackwardsCompatibility env url w) =
      Fulfilled \<lparr>client = \<lparr>client_id = next_id w + 3,
                   client_name = ''backwards-compatible-client'', client_version = ''1.0.0''\<rparr>,
         transport = SSEClientTransport (next_id w + 2) b,
         transportType = ''sse''\<rparr> \<and>
    filter modern_failed_event
        (events_since w (snd (connectWithBackwardsCompatibility env url w))) =
      [Connect \<lparr>client_id = next_id w, client_name = ''backwards-compatible-client'',
                client_version = ''1.0.0''\<rparr>
         (StreamableHTTPClientTransport (next_id w + 1) b
            \<lparr>redirectUrl = ''http://localhost:8090/callback'',
              clientMetadata = \<lparr>redirect_uris = [''http://localhost:8090/callback'']\<rparr>\<rparr>)
         (Rejected e)] \<and>
    New_Client \<lparr>client_id = next_id w + 3, client_name = ''backwards-compatible-client'',
                client_version = ''1.0.0''\<rparr>
      \<in> set (dropWhile (\<lambda>x. \<not> modern_failed_event x)
            (events_since w (snd (connectWithBackwardsCompatibility env url w))))"
  using assms by (simp add: negotiate_defs)

theorem fallback_returns_fresh_client_witness:
  "fst (connectWithBackwardsCompatibility
       \<lparr>new_URL = Inr, modern_connect = (\<lambda>_. Rejected (new_Error ''HTTP 404'')),
         legacy_connect = (\<lambda>_. Fulfilled ())\<rparr>
       ''http://localhost:3000/mcp'' \<lparr>trace = [], next_id = 0\<rparr>) =
     Fulfilled \<lparr>client = \<lparr>client_id = 3, client_name = ''backwards-compatible-client'',
                  client_version = ''1.0.0''\<rparr>,
        transport = SSEClientTransport 2 ''http://localhost:3000/mcp'',
        transportType = ''sse''\<rparr>"
  using fallback_returns_fresh_client [of
     "\<lparr>new_URL = Inr, modern_connect = (\<lambda>_. Rejected (new_Error ''HTTP 404'')),
       legacy_connect = (\<lambda>_. Fulfilled ())\<rparr>"
     "''http://localhost:3000/mcp''" "''http://localhost:3000/mcp''"
     "new_Error ''HTTP 404''" "\<lparr>trace = [], next_id = 0\<rparr>"]
  by simp

text \<open>
  C1, as stated: the error that the caller gets when both connects fail contains both
  failure messages. With the failures \<open>HTTP 404\<close> and \<open>ECONNREFUSED\<close> it contains neither.
\<close>

theorem both_failures_error_counterexample:
  "fst (connectWithBackwardsCompatibility
     \<lparr>new_URL = Inr, modern_connect = (\<lambda>_. Rejected (new_Error ''HTTP 404'')),
       legacy_connect = (\<lambda>_. Rejected (new_Error ''ECONNREFUSED''))\<rparr>
     ''http://localhost:3000/mcp'' \<lparr>trace = [], next_id = 0\<rparr>) =
   Rejected (new_Error ''Could not connect to server with any available transport'') \<and>
   \<not> sublist ''HTTP 404''
     (error_toString (new_Error ''Could not connect to server with any available transport'')) \<and>
   \<not> sublist ''ECONNREFUSED''
     (error_toString (new_Error ''Could not connect to server with any available transport''))"
  by (simp add: negotiate_defs new_Error_def error_toString_def sublist_code(3))

text \<open>
  C1, amended: when both connects fail, the two failure messages, labelled
  \<open>1. Streamable HTTP error:\<close> and \<open>2. SSE error:\<close>, are written to the error console as the
  last thing the function does, and the error propagated to the caller is the fixed
  \<open>Could not connect to server with any available transport\<close>, whatever the failures were.
\<close>

theorem both_failures_logged_then_fixed_error:
  assumes "new_URL env url = Inr b" and "modern_connect env b = Rejected e1"
    and "legacy_connect env b = Rejected e2"
  shows "fst (connectWithBackwardsCompatibility env url w) =
      Rejected (new_Error ''Could not connect to server with any available transport'') \<and>
    last (events_since w (snd (connectWithBackwardsCompatibility env url w))) =
      Console_error (''Failed to connect with either transport method:''
         @ [CHR 0x0A] @ ''1. Streamable HTTP error: '' @ error_toString e1
         @ [CHR 0x0A] @ ''2. SSE error: '' @ error_toString e2) \<and>
    sublist (''1. Streamable HTTP error: '' @ error_toString e1)
      (''Failed to connect with either transport method:''
         @ [CHR 0x0A] @ ''1. Streamable HTTP error: '' @ error_toString e1
         @ [CHR 0x0A] @ ''2. SSE error: '' @ error_toString e2) \<and>
    sublist (''2. SSE error: '' @ error_toString e2)
      (''Failed to connect with either transport method:''
         @ [CHR 0x0A] @ ''1. Streamable HTTP error: '' @ error_toString e1
         @ [CHR 0x0A] @ ''2. SSE error: '' @ error_toString e2)"
proof -
  have "sublist (''1. Streamable HTTP error: '' @ error_toString e1)
      ((''Failed to connect with either transport method:'' @ [CHR 0x0A])
         @ (''1. Streamable HTTP error: '' @ error_toString e1)
         @ ([CHR 0x0A] @ ''2. SSE error: '' @ error_toString e2))"
    by (rule sublist_appendI)
  moreover have "sublist (''2. SSE error: '' @ error_toString e2)
      ((''Failed to connect with either transport method:''
         @ [CHR 0x0A] @ ''1. Streamable HTTP error: '' @ error_toString e1 @ [CHR 0x0A])
         @ (''2. SSE error: '' @ error_toString e2))"
    by (rule sublist_append_leftI)
  ultimately show ?thesis using assms by (simp add: negotiate_defs)
qed

theorem both_failures_logged_then_fixed_error_witness:
  "fst (connectWithBackwardsCompatibility
     \<lparr>new_URL = Inr, modern_connect = (\<lambda>_. Rejected (new_Error ''HTTP 404'')),
       legacy_connect = (\<lambda>_. Rejected (new_Error ''ECONNREFUSED''))\<rparr>
     ''http://localhost:3000/mcp'' \<lparr>trace = [], next_id = 0\<rparr>) =
   Rejected (new_Error ''Could not connect to server with any available transport'') \<and>
   last (events_since \<lparr>trace = [], next_id = 0\<rparr> (snd (connectWithBackwardsCompatibility
     \<lparr>new_URL = Inr, modern_connect = (\<lambda>_. Rejected (new_Error ''HTTP 404'')),
       legacy_connect = (\<lambda>_. Rejected (new_Error ''ECONNREFUSED''))\<rparr>
     ''http://localhost:3000/mcp'' \<lparr>trace = [], next_id = 0\<rparr>))) =
   Console_error (''Failed to connect with either transport method:''
         @ [CHR 0x0A] @ ''1. Streamable HTTP error: Error: HTTP 404''
         @ [CHR 0x0A] @ ''2. SSE error: Error: ECONNREFUSED'')"
  using both_failures_logged_then_fixed_error [of
     "\<lparr>new_URL = Inr, modern_connect = (\<lambda>_. Rejected (new_Error ''HTTP 404'')),
       legacy_connect = (\<lambda>_. Rejected (new_Error ''ECONNREFUSED''))\<rparr>"
     "''http://localhost:3000/mcp''" "''http://localhost:3000/mcp''"
     "new_Error ''HTTP 404''" "new_Error ''ECONNREFUSED''" "\<lparr>trace = [], next_id = 0\<rparr>"]
  by (simp add: new_Error_def error_toString_def)

end
